theory Spec2Isabelle
  imports Complex_Main
begin

section \<open>MEXC screener: a shallow embedding\<close>

text \<open>
  The embedding follows \<^verbatim>\<open>mexc_rsi_screener.py\<close> (the single-process loop and the
  indicator library) and \<^verbatim>\<open>web_app.py\<close> (the per-client loop and its event queue).
  Periods and lengths are natural numbers, timestamps and minutes are integers. An
  exception of the source is a value \<open>Inl e\<close> of a sum type.

  A Python float is an IEEE 754 double. The EMA, the ATR series and the trend classifier
  are modelled with the rounding of every operation they perform. \<^verbatim>\<open>calculate_rsi\<close> is
  written over the reals without rounding: what is proved of it equates two computations
  that perform the same operations in the same order.
\<close>

datatype py_error = ZeroDivisionError | IndexError | TypeError | LinAlgError

subsection \<open>Indicator library\<close>

text \<open>
  \<^verbatim>\<open>calculate_rsi\<close>: the list comprehensions become \<open>map\<close>, the smoothing loop over
  \<^verbatim>\<open>range(period, len(prices) - 1)\<close> a \<open>fold\<close> over the same indices that updates both
  averages together. With \<open>period = 0\<close> the seed divides by zero.
\<close>

definition wilder_step :: "nat \<Rightarrow> real \<Rightarrow> real \<Rightarrow> real" where
  "wilder_step period avg v = (avg * (real period - 1) + v) / real period"

definition calculate_rsi :: "real list \<Rightarrow> nat \<Rightarrow> py_error + real option" where
  "calculate_rsi prices period =
     (if length prices < period + 1 then Inr None
      else
        let deltas = map (\<lambda>i. prices ! i - prices ! (i - 1)) [1..<length prices];
            gains = map (\<lambda>d. if d > 0 then d else 0) deltas;
            losses = map (\<lambda>d. if d < 0 then - d else 0) deltas
        in if period = 0 then Inl ZeroDivisionError
           else
             let avg_gain = sum_list (take period gains) / real period;
                 avg_loss = sum_list (take period losses) / real period;
                 (avg_gain, avg_loss) =
                   fold (\<lambda>i (avg_gain, avg_loss).
                           (wilder_step period avg_gain (gains ! i),
                            wilder_step period avg_loss (losses ! i)))
                     [period..<length prices - 1] (avg_gain, avg_loss)
             in if avg_loss = 0 then Inr (Some 100)
                else
                  let rs = avg_gain / avg_loss
                  in if 1 + rs = 0 then Inl ZeroDivisionError
                     else Inr (Some (100 - (100 / (1 + rs)))))"

text \<open>
  The RSI as the specification words it, for comparison with \<^verbatim>\<open>calculate_rsi\<close>: deltas
  of consecutive closes, gains \<open>max(delta, 0)\<close> and losses \<open>max(-delta, 0)\<close>, each average
  seeded with the simple mean of the first \<open>period\<close> values and smoothed with
  \<open>avg = (avg * (period - 1) + new_value) / period\<close> over every later value.
\<close>

definition rsi_by_spec :: "real list \<Rightarrow> nat \<Rightarrow> real" where
  "rsi_by_spec closes period =
     (let deltas = map (\<lambda>(next, prev). next - prev) (zip (tl closes) closes);
          gains = map (\<lambda>delta. max delta 0) deltas;
          losses = map (\<lambda>delta. max (- delta) 0) deltas;
          smooth = (\<lambda>values.
            foldl (\<lambda>avg new_value. (avg * (real period - 1) + new_value) / real period)
              (sum_list (take period values) / real period) (drop period values));
          avg_gain = smooth gains;
          avg_loss = smooth losses
      in if avg_loss = 0 then 100 else 100 - 100 / (1 + avg_gain / avg_loss))"

subsection \<open>Double arithmetic\<close>

text \<open>
  A double is a real of the form \<open>k * 2 ^ e\<close> with \<open>\<bar>k\<bar> < 2 ^ 53\<close>. Every arithmetic operation
  returns the exact result rounded to the nearest double, ties to the even mantissa:
  \<open>round_double\<close> scales by the unit in the last place of the binade of \<open>x\<close> (of the
  smallest normal binade for a subnormal \<open>x\<close>) and rounds to an integer. Overflow,
  infinities and NaN are outside the model.
\<close>

definition round_half_even :: "real \<Rightarrow> int" where
  "round_half_even x =
     (let f = \<lfloor>x\<rfloor>; r = x - of_int f
      in if r < 1 / 2 then f else if r > 1 / 2 then f + 1 else if even f then f else f + 1)"

definition round_double :: "real \<Rightarrow> real" where
  "round_double x =
     (if x = 0 then 0
      else let ulp = 2 powr of_int (max \<lfloor>log 2 \<bar>x\<bar>\<rfloor> (- 1022) - 52)
           in of_int (round_half_even (x / ulp)) * ulp)"

definition fadd :: "real \<Rightarrow> real \<Rightarrow> real" where
  "fadd a b = round_double (a + b)"

definition fsub :: "real \<Rightarrow> real \<Rightarrow> real" where
  "fsub a b = round_double (a - b)"

definition fmul :: "real \<Rightarrow> real \<Rightarrow> real" where
  "fmul a b = round_double (a * b)"

definition fdiv :: "real \<Rightarrow> real \<Rightarrow> real" where
  "fdiv a b = round_double (a / b)"

text \<open>A real is a double when rounding leaves it unchanged.\<close>

definition is_double :: "real \<Rightarrow> bool" where
  "is_double x = (round_double x = x)"

text \<open>
  The builtin \<^verbatim>\<open>sum\<close> is library code, and a parameter \<open>py_sum\<close> of the definitions that
  call it. \<open>sum_left_to_right\<close> is the sum as CPython computes it up to version 3.11: it
  starts from 0 and adds the items from left to right, rounding after each addition.
  (Later versions add a compensation term to the same loop.)
\<close>

definition sum_left_to_right :: "real list \<Rightarrow> real" where
  "sum_left_to_right values = fold (\<lambda>item result. fadd result item) values 0"

text \<open>
  \<^verbatim>\<open>calculate_ema\<close>: the multiplier is the rounded quotient \<open>2 / (period + 1)\<close>, the seed
  the rounded mean of \<^verbatim>\<open>prices[:period]\<close>, and the loop runs over \<^verbatim>\<open>prices[period:]\<close> with
  three rounded operations per step.
\<close>

definition calculate_ema :: "(real list \<Rightarrow> real) \<Rightarrow> real list \<Rightarrow> nat \<Rightarrow> py_error + real option" where
  "calculate_ema py_sum prices period =
     (if length prices < period + 20 then Inr None
      else
        let multiplier = fdiv 2 (real period + 1)
        in if period = 0 then Inl ZeroDivisionError
           else
             let ema = fdiv (py_sum (take period prices)) (real period)
             in Inr (Some (fold (\<lambda>price ema. fadd (fmul (fsub price ema) multiplier) ema)
                             (drop period prices) ema)))"




subsection \<open>Trend classifier\<close>











subsection \<open>Stochastic alerts\<close>

text \<open>
  The stochastic block of \<^verbatim>\<open>main\<close> calls \<^verbatim>\<open>send_notification(symbol, value, condition)\<close>;
  the model returns the notifications of one symbol as \<open>(value, condition)\<close> pairs, in
  order. The block of \<^verbatim>\<open>screener_loop\<close> appends to \<^verbatim>\<open>result["alerts"]\<close>; the model returns
  what it appends. The composite conditions carry the long EMA period of their label.
\<close>

datatype alert =
    Stoch_Overbought
  | Stoch_Oversold
  | Stoch_Oversold_Above_EMA nat
  | Stoch_Overbought_Below_EMA nat

definition main_stoch_alerts ::
  "int \<Rightarrow> real option \<Rightarrow> nat \<Rightarrow> real \<Rightarrow> real \<Rightarrow> real \<Rightarrow> real \<Rightarrow> real \<Rightarrow> (real \<times> alert) list" where
  "main_stoch_alerts stoch_alert_method ema_long ema_long_period stoch_k stoch_d
       stoch_overbought stoch_oversold current_price =
     (let stoch_is_overbought = (stoch_k > stoch_overbought \<or> stoch_d > stoch_overbought);
          stoch_is_oversold = (stoch_k < stoch_oversold \<or> stoch_d < stoch_oversold)
      in if stoch_alert_method = 1 then
           (if stoch_is_overbought then [(stoch_k, Stoch_Overbought)]
            else if stoch_is_oversold then [(stoch_d, Stoch_Oversold)]
            else [])
         else if stoch_alert_method = 2 then
           (case ema_long of
              None \<Rightarrow>
                (if stoch_is_overbought then [(stoch_k, Stoch_Overbought)]
                 else if stoch_is_oversold then [(stoch_d, Stoch_Oversold)]
                 else [])
            | Some ema \<Rightarrow>
                (if stoch_is_oversold \<and> current_price > ema
                 then [(stoch_d, Stoch_Oversold_Above_EMA ema_long_period)]
                 else [])
                @ (if stoch_is_overbought \<and> current_price < ema
                   then [(stoch_d, Stoch_Overbought_Below_EMA ema_long_period)]
                   else []))
         else [])"

definition screener_stoch_alerts ::
  "int \<Rightarrow> real option \<Rightarrow> nat \<Rightarrow> real \<Rightarrow> real \<Rightarrow> real \<Rightarrow> real \<Rightarrow> real \<Rightarrow> alert list" where
  "screener_stoch_alerts stoch_alert_method ema_long ema_long_period stoch_k stoch_d
       stoch_overbought stoch_oversold current_price =
     (let is_ob = (stoch_k > stoch_overbought \<or> stoch_d > stoch_overbought);
          is_os = (stoch_k < stoch_oversold \<or> stoch_d < stoch_oversold)
      in if stoch_alert_method = 1 then
           (if is_ob then [Stoch_Overbought]
            else if is_os then [Stoch_Oversold]
            else [])
         else if stoch_alert_method = 2 then
           (case ema_long of
              None \<Rightarrow>
                (if is_ob then [Stoch_Overbought]
                 else if is_os then [Stoch_Oversold]
                 else [])
            | Some ema \<Rightarrow>
                (if is_os \<and> current_price > ema
                 then [Stoch_Oversold_Above_EMA ema_long_period]
                 else if is_ob \<and> current_price < ema
                 then [Stoch_Overbought_Below_EMA ema_long_period]
                 else []))
         else [])"

subsection \<open>The market-data cache\<close>

text \<open>
  The cache is one dictionary: a symbol maps to its entry, and the reserved key
  \<^verbatim>\<open>_metadata\<close> to \<^verbatim>\<open>{"timeframe": minutes}\<close>. Entry keys may be missing in a file
  written by hand or by an older version, so every field is optional. \<open>Metadata None\<close> is
  a metadata dictionary without a timeframe.
\<close>

record entry =
  last_updated :: "real option"
  entry_highs :: "real list option"
  entry_lows :: "real list option"
  entry_prices :: "real list option"

datatype cache_value = Metadata "int option" | Asset entry

type_synonym market_data = "string \<rightharpoonup> cache_value"

text \<open>
  The state of \<^verbatim>\<open>market_data.json\<close>: missing, unreadable (\<^verbatim>\<open>open\<close>, \<^verbatim>\<open>json.load\<close> or
  a lookup raises, as for content that is no dictionary), or holding a dictionary.
\<close>

datatype data_file = Absent | Unreadable | Stored market_data

definition load_market_data :: "data_file \<Rightarrow> int \<Rightarrow> market_data" where
  "load_market_data file current_timeframe =
     (case file of
        Absent \<Rightarrow> Map.empty
      | Unreadable \<Rightarrow> Map.empty
      | Stored data \<Rightarrow>
          let cached_timeframe =
                (case data ''_metadata'' of
                   None \<Rightarrow> None
                 | Some (Metadata timeframe) \<Rightarrow> timeframe
                 | Some (Asset e) \<Rightarrow> None)
          in if cached_timeframe \<noteq> Some current_timeframe then Map.empty else data)"

text \<open>
  The end of a cycle of \<^verbatim>\<open>main\<close>: when a symbol was refreshed the cache is tagged with
  the configured timeframe and written (a write that succeeds).
\<close>

definition tag_metadata :: "int \<Rightarrow> market_data \<Rightarrow> market_data" where
  "tag_metadata timeframe_mins market_data =
     market_data(''_metadata'' \<mapsto> Metadata (Some timeframe_mins))"

definition save_refreshed :: "nat \<Rightarrow> int \<Rightarrow> market_data \<Rightarrow> data_file \<Rightarrow> data_file" where
  "save_refreshed refreshed_count timeframe_mins market_data file =
     (if refreshed_count > 0 then Stored (tag_metadata timeframe_mins market_data) else file)"

subsection \<open>One symbol of a cycle\<close>

text \<open>
  Retrieval is external. \<open>Fetch_failed\<close> is a falsy \<^verbatim>\<open>raw_data\<close>; \<open>Fetched p\<close> is a truthy
  one, with \<open>p\<close> what \<^verbatim>\<open>parse_ohlc\<close> returns for it: \<open>None\<close> for \<^verbatim>\<open>(None, None, None)\<close>,
  otherwise \<open>Some (highs, lows, closes)\<close>.
\<close>

datatype retrieval = Fetch_failed | Fetched "(real list \<times> real list \<times> real list) option"

text \<open>A retrieval fails when the fetch gives nothing or the parse gives no closes.\<close>

fun retrieval_failed :: "retrieval \<Rightarrow> bool" where
  "retrieval_failed Fetch_failed = True"
| "retrieval_failed (Fetched None) = True"
| "retrieval_failed (Fetched (Some (highs, lows, closes))) = (closes = [])"

text \<open>The series the indicator computations of a symbol run on.\<close>

record analysis =
  a_prices :: "real list"
  a_highs :: "real list"
  a_lows :: "real list"
  a_current_price :: "real option"

text \<open>
  \<^verbatim>\<open>main\<close>, per symbol: update the cache from the retrieval, then read the symbol's entry
  back. \<open>None\<close> is the \<^verbatim>\<open>continue\<close> that skips the computations.
\<close>

definition main_symbol ::
  "real \<Rightarrow> string \<Rightarrow> retrieval \<Rightarrow> market_data \<times> nat \<Rightarrow> (market_data \<times> nat) \<times> analysis option" where
  "main_symbol now symbol raw_data state =
     (let (market_data, refreshed_count) = state;
          (market_data, refreshed_count) =
            (case raw_data of
               Fetch_failed \<Rightarrow> (market_data, refreshed_count)
             | Fetched None \<Rightarrow> (market_data, refreshed_count)
             | Fetched (Some (highs, lows, closes)) \<Rightarrow>
                 if closes \<noteq> [] then
                   (market_data(symbol \<mapsto> Asset \<lparr>last_updated = Some now,
                        entry_highs = Some highs, entry_lows = Some lows,
                        entry_prices = Some closes\<rparr>),
                    refreshed_count + 1)
                 else (market_data, refreshed_count))
      in ((market_data, refreshed_count),
          (case market_data symbol of
             None \<Rightarrow> None
           | Some (Metadata m) \<Rightarrow> None
           | Some (Asset current_asset_data) \<Rightarrow>
               (case entry_prices current_asset_data of
                  None \<Rightarrow> None
                | Some prices \<Rightarrow>
                    Some \<lparr>a_prices = prices,
                      a_highs = (case entry_highs current_asset_data of None \<Rightarrow> [] | Some h \<Rightarrow> h),
                      a_lows = (case entry_lows current_asset_data of None \<Rightarrow> [] | Some l \<Rightarrow> l),
                      a_current_price = (if prices \<noteq> [] then Some (last prices) else None)\<rparr>))))"

text \<open>
  \<^verbatim>\<open>screener_loop\<close>, per symbol: the series start empty, are replaced by a parse, and
  an empty or missing \<^verbatim>\<open>closes\<close> skips the symbol. The loop reads no cache.
\<close>

definition screener_symbol :: "retrieval \<Rightarrow> nat \<Rightarrow> nat \<times> analysis option" where
  "screener_symbol raw_data refreshed_count =
     (case raw_data of
        Fetch_failed \<Rightarrow> (refreshed_count, None)
      | Fetched None \<Rightarrow> (refreshed_count, None)
      | Fetched (Some (highs, lows, closes)) \<Rightarrow>
          if closes \<noteq> [] then
            (refreshed_count + 1,
             Some \<lparr>a_prices = closes, a_highs = highs, a_lows = lows,
               a_current_price = Some (last closes)\<rparr>)
          else (refreshed_count, None))"

subsection \<open>Sessions and their event queues\<close>

text \<open>
  Modelled from the spec: \<^verbatim>\<open>queue.Queue\<close> is library code outside the repository, a
  first-in first-out queue of fixed capacity. \<^verbatim>\<open>put_nowait\<close> raises \<^verbatim>\<open>queue.Full\<close> when
  \<open>maxsize\<close> is positive and reached, and appends otherwise; it never waits.
\<close>

record 'a py_queue =
  maxsize :: nat
  items :: "'a list"

datatype queue_error = Full

definition put_nowait :: "'a py_queue \<Rightarrow> 'a \<Rightarrow> queue_error + 'a py_queue" where
  "put_nowait q item =
     (if 0 < maxsize q \<and> maxsize q \<le> length (items q) then Inl Full
      else Inr (q\<lparr>items := items q @ [item]\<rparr>))"

text \<open>
  A session of \<^verbatim>\<open>web_app.py\<close>, without its thread and configuration. An event is the
  pair of its type and its data, as \<^verbatim>\<open>json.dumps\<close> serialises them. The results of the last
  cycle are kept per symbol; of a result the model keeps the symbol and the price, the
  fields it is created with, and leaves out the indicator values added to it.
\<close>

type_synonym event = "string \<times> string"

record result =
  r_symbol :: string
  r_price :: "real option"

record session =
  s_running :: bool
  s_queue :: "event py_queue"
  s_data :: "string \<rightharpoonup> result"

type_synonym registry = "string \<rightharpoonup> session"

definition get_session :: "registry \<Rightarrow> string \<Rightarrow> registry \<times> session" where
  "get_session sessions session_id =
     (case sessions session_id of
        None \<Rightarrow>
          let s = \<lparr>s_running = False, s_queue = \<lparr>maxsize = 500, items = []\<rparr>,
                   s_data = Map.empty\<rparr>
          in (sessions(session_id \<mapsto> s), s)
      | Some s \<Rightarrow> (sessions, s))"

definition push_event :: "registry \<Rightarrow> string \<Rightarrow> string \<Rightarrow> string \<Rightarrow> registry" where
  "push_event sessions session_id event_type data =
     (case sessions session_id of
        None \<Rightarrow> sessions
      | Some s \<Rightarrow>
          (case put_nowait (s_queue s) (event_type, data) of
             Inl Full \<Rightarrow> sessions
           | Inr q \<Rightarrow> sessions(session_id \<mapsto> s\<lparr>s_queue := q\<rparr>)))"

text \<open>
  One cycle of \<^verbatim>\<open>screener_loop\<close> over the assets, for a session that stays running:
  \<^verbatim>\<open>results\<close> starts empty, gets an entry for every symbol that is not skipped, and
  replaces \<^verbatim>\<open>session["data"]\<close>.
\<close>

fun screener_assets ::
  "(string \<Rightarrow> retrieval) \<Rightarrow> string list \<Rightarrow> (string \<rightharpoonup> result) \<times> nat \<Rightarrow> (string \<rightharpoonup> result) \<times> nat" where
  "screener_assets fetch [] state = state"
| "screener_assets fetch (symbol # assets) (results, refreshed_count) =
     (case screener_symbol (fetch symbol) refreshed_count of
        (refreshed_count, None) \<Rightarrow> screener_assets fetch assets (results, refreshed_count)
      | (refreshed_count, Some a) \<Rightarrow>
          screener_assets fetch assets
            (results(symbol \<mapsto> \<lparr>r_symbol = symbol, r_price = a_current_price a\<rparr>),
             refreshed_count))"

definition screener_cycle :: "(string \<Rightarrow> retrieval) \<Rightarrow> string list \<Rightarrow> session \<Rightarrow> session" where
  "screener_cycle fetch assets s =
     s\<lparr>s_data := fst (screener_assets fetch assets (Map.empty, 0))\<rparr>"

subsection \<open>Interval labels and the request window\<close>

definition get_interval_str :: "int \<Rightarrow> string" where
  "get_interval_str minutes =
     (case map_of [(1, ''Min1''), (5, ''Min5''), (15, ''Min15''), (30, ''Min30''),
                   (60, ''Min60''), (240, ''Hour4''), (480, ''Hour8''), (1440, ''Day1''),
                   (10080, ''Week1''), (43200, ''Month1'')] minutes of
        Some interval_str \<Rightarrow> interval_str
      | None \<Rightarrow> ''Min15'')"

text \<open>
  The request parameters \<^verbatim>\<open>fetch_kline_data\<close> builds: the interval label and the window
  \<open>(start, end)\<close> in seconds.
\<close>

definition fetch_kline_params :: "int \<Rightarrow> string \<Rightarrow> int \<Rightarrow> string \<times> int \<times> int" where
  "fetch_kline_params end_time interval_str count =
     (let interval_seconds =
            (case map_of [(''Min1'', 60), (''Min5'', 300), (''Min15'', 900), (''Min30'', 1800),
                          (''Min60'', 3600), (''Hour4'', 14400), (''Hour8'', 28800),
                          (''Day1'', 86400), (''Week1'', 604800), (''Month1'', 2592000)]
                    interval_str of
               Some seconds \<Rightarrow> seconds
             | None \<Rightarrow> 900);
          start_time = end_time - (count * interval_seconds)
      in (interval_str, start_time, end_time))"

subsection \<open>The wait until the next candle boundary\<close>

text \<open>
  \<^verbatim>\<open>main\<close> and \<^verbatim>\<open>screener_loop\<close> end a cycle with
  \<^verbatim>\<open>next_interval = ((now_ts // interval_seconds) + 1) * interval_seconds\<close> and
  \<^verbatim>\<open>sleep_seconds = next_interval - now_ts\<close>. Python's \<^verbatim>\<open>//\<close> on integers is floor division,
  as \<open>div\<close> on \<^typ>\<open>int\<close> is.
\<close>

definition next_interval :: "int \<Rightarrow> int \<Rightarrow> int" where
  "next_interval now_ts interval_seconds =
     ((now_ts div interval_seconds) + 1) * interval_seconds"

definition sleep_seconds :: "int \<Rightarrow> int \<Rightarrow> int" where
  "sleep_seconds now_ts timeframe_mins =
     (let interval_seconds = timeframe_mins * 60
      in next_interval now_ts interval_seconds - now_ts)"

text \<open>The formula of the specification, \<open>ceil(now / interval) * interval\<close>.\<close>

definition ceil_boundary :: "int \<Rightarrow> int \<Rightarrow> int" where
  "ceil_boundary now_ts interval = \<lceil>real_of_int now_ts / real_of_int interval\<rceil> * interval"

section \<open>Properties\<close>

subsection \<open>RSI\<close>

lemma deltas_zip:
  "map (\<lambda>i. prices ! i - prices ! (i - 1)) [1..<length prices]
     = map (\<lambda>(next, prev). next - prev) (zip (tl prices) prices)"
  by (rule nth_equalityI) (auto simp: nth_tl)

lemma smoothing_loop:
  assumes "b \<le> length gs" and "b \<le> length ls"
  shows "fold (\<lambda>i (g, l). (f g (gs ! i), f l (ls ! i))) [a..<b] (g0, l0)
          = (foldl f g0 (take (b - a) (drop a gs)), foldl f l0 (take (b - a) (drop a ls)))"
  using assms
proof (induction b)
  case 0
  then show ?case by simp
next
  case (Suc b)
  show ?case
  proof (cases "a \<le> b")
    case True
    then have "Suc b - a = Suc (b - a)" by simp
    moreover have "take (Suc (b - a)) (drop a gs) = take (b - a) (drop a gs) @ [gs ! b]"
      using Suc.prems True by (simp add: take_Suc_conv_app_nth)
    moreover have "take (Suc (b - a)) (drop a ls) = take (b - a) (drop a ls) @ [ls ! b]"
      using Suc.prems True by (simp add: take_Suc_conv_app_nth)
    ultimately show ?thesis
      using Suc True by simp
  next
    case False
    then show ?thesis by simp
  qed
qed

lemma wilder_nonneg:
  assumes "1 \<le> period" and "\<forall>v \<in> set vs. 0 \<le> v" and "0 \<le> a"
  shows "0 \<le> foldl (wilder_step period) a vs"
  using assms(2,3)
proof (induction vs arbitrary: a)
  case Nil
  then show ?case by simp
next
  case (Cons v vs)
  have "0 \<le> wilder_step period a v"
    using Cons.prems assms(1) by (simp add: wilder_step_def)
  with Cons show ?case by simp
qed


lemma gains_max: "(\<lambda>d::real. if d > 0 then d else 0) = (\<lambda>d. max d 0)"
  by (auto simp: max_def)

lemma losses_max: "(\<lambda>d::real. if d < 0 then - d else 0) = (\<lambda>d. max (- d) 0)"
  by (auto simp: max_def)

lemma wilder_step_eq:
  "wilder_step period = (\<lambda>avg new_value. (avg * (real period - 1) + new_value) / real period)"
  by (intro ext) (simp add: wilder_step_def)

lemma calculate_rsi_defined:
  assumes period: "1 \<le> period" and len: "period + 1 \<le> length prices"
  shows "calculate_rsi prices period = Inr (Some (rsi_by_spec prices period))"
proof -
  define ds where "ds = map (\<lambda>(next, prev). next - prev) (zip (tl prices) prices)"
  define gs where "gs = map (\<lambda>d. max d 0) ds"
  define ls where "ls = map (\<lambda>d. max (- d) 0) ds"
  define g where "g = foldl (wilder_step period) (sum_list (take period gs) / real period) (drop period gs)"
  define l where "l = foldl (wilder_step period) (sum_list (take period ls) / real period) (drop period ls)"
  have len_ds: "length ds = length prices - 1"
    by (simp add: ds_def)
  have len_gs: "length gs = length prices - 1" and len_ls: "length ls = length prices - 1"
    by (simp_all add: gs_def ls_def len_ds)
  have loop: "fold (\<lambda>i (avg_gain, avg_loss).
                  (wilder_step period avg_gain (gs ! i), wilder_step period avg_loss (ls ! i)))
               [period..<length prices - 1]
               (sum_list (take period gs) / real period, sum_list (take period ls) / real period)
             = (g, l)"
    using smoothing_loop [of "length prices - 1" gs ls "wilder_step period" period]
    by (simp add: len_gs len_ls g_def l_def)
  have gs_nonneg: "\<forall>v \<in> set gs. 0 \<le> v" and ls_nonneg: "\<forall>v \<in> set ls. 0 \<le> v"
    by (auto simp: gs_def ls_def)
  have "0 \<le> sum_list (take period gs) / real period"
    using gs_nonneg by (intro divide_nonneg_nonneg sum_list_nonneg) (auto dest: in_set_takeD)
  then have g_nonneg: "0 \<le> g"
    unfolding g_def using gs_nonneg period by (intro wilder_nonneg) (auto dest: in_set_dropD)
  have "0 \<le> sum_list (take period ls) / real period"
    using ls_nonneg by (intro divide_nonneg_nonneg sum_list_nonneg) (auto dest: in_set_takeD)
  then have l_nonneg: "0 \<le> l"
    unfolding l_def using ls_nonneg period by (intro wilder_nonneg) (auto dest: in_set_dropD)
  have ratio: "1 + g / l \<noteq> 0"
  proof -
    have "0 \<le> g / l" using g_nonneg l_nonneg by simp
    then show ?thesis by linarith
  qed
  have code: "calculate_rsi prices period =
      (if l = 0 then Inr (Some 100) else Inr (Some (100 - 100 / (1 + g / l))))"
    unfolding calculate_rsi_def Let_def deltas_zip gains_max losses_max
      ds_def [symmetric] gs_def [symmetric] ls_def [symmetric] loop
    using period len ratio by simp
  have spec: "rsi_by_spec prices period = (if l = 0 then 100 else 100 - 100 / (1 + g / l))"
    by (simp add: rsi_by_spec_def Let_def g_def l_def gs_def ls_def ds_def wilder_step_eq)
  show ?thesis
    by (simp add: code spec)
qed

lemma calculate_rsi_undefined_iff:
  assumes "1 \<le> period"
  shows "calculate_rsi prices period = Inr None \<longleftrightarrow> length prices < period + 1"
proof (cases "length prices < period + 1")
  case True
  then show ?thesis by (simp add: calculate_rsi_def)
next
  case False
  then have "calculate_rsi prices period = Inr (Some (rsi_by_spec prices period))"
    using assms calculate_rsi_defined by simp
  with False show ?thesis by simp
qed

text \<open>
  C4. For every price list and period of at least 1, \<^verbatim>\<open>calculate_rsi\<close> returns the
  undefined sentinel exactly when \<open>len(prices) < period + 1\<close>; otherwise it returns, without
  raising, the value the specification describes: averages seeded with the simple means
  of the first \<open>period\<close> gains and losses, Wilder's smoothing over every later delta,
  then 100 when the final average loss is 0 and \<open>100 - 100 / (1 + avg_gain / avg_loss)\<close>
  otherwise.
\<close>

theorem calculate_rsi_by_spec:
  assumes "1 \<le> period"
  shows "(calculate_rsi prices period = Inr None \<longleftrightarrow> length prices < period + 1)
       \<and> (period + 1 \<le> length prices \<longrightarrow>
            calculate_rsi prices period = Inr (Some (rsi_by_spec prices period)))"
  using assms calculate_rsi_undefined_iff calculate_rsi_defined by blast

theorem calculate_rsi_by_spec_witness:
  "calculate_rsi [1, 2, 4, 3] 2 = Inr (Some 60) \<and> rsi_by_spec [1, 2, 4, 3] 2 = 60
   \<and> calculate_rsi [1, 2] 2 = Inr None"
  using calculate_rsi_by_spec [of 2 "[1, 2, 4, 3]"] calculate_rsi_by_spec [of 2 "[1, 2]"]
  by (simp add: rsi_by_spec_def)

subsection \<open>Rounding to a double\<close>

lemma round_double_zero: "round_double 0 = 0"
  by (simp add: round_double_def)

lemma round_half_even_near:
  "of_int k - 1 / 2 < x \<Longrightarrow> x < of_int k + 1 / 2 \<Longrightarrow> round_half_even x = k"
proof -
  assume lo: "of_int k - 1 / 2 < x" and hi: "x < of_int k + 1 / 2"
  show ?thesis
  proof (cases "of_int k \<le> x")
    case True
    then have "\<lfloor>x\<rfloor> = k" using hi by linarith
    then show ?thesis using hi by (simp add: round_half_even_def Let_def)
  next
    case False
    then have f: "\<lfloor>x\<rfloor> = k - 1" using lo by linarith
    then show ?thesis using lo False by (simp add: round_half_even_def Let_def)
  qed
qed

lemma round_half_even_tie:
  "x = of_int k + 1 / 2 \<Longrightarrow> round_half_even x = (if even k then k else k + 1)"
proof -
  assume x: "x = of_int k + 1 / 2"
  then have "\<lfloor>x\<rfloor> = k" by linarith
  then show ?thesis using x by (simp add: round_half_even_def Let_def)
qed

lemma round_half_even_of_int: "round_half_even (of_int k) = k"
  by (rule round_half_even_near) simp_all

lemma binade_eq:
  assumes "2 powr of_int e \<le> \<bar>x\<bar>" and "\<bar>x\<bar> < 2 powr of_int (e + 1)"
  shows "\<lfloor>log 2 \<bar>x\<bar>\<rfloor> = e"
proof -
  have pos: "0 < \<bar>x\<bar>" using assms(1) by (smt (verit) powr_gt_zero)
  have "of_int e \<le> log 2 \<bar>x\<bar>"
    using assms(1) pos by (simp add: le_log_iff)
  moreover have "log 2 \<bar>x\<bar> < of_int (e + 1)"
    using assms(2) pos by (simp add: log_less_iff)
  ultimately show ?thesis by linarith
qed

lemma round_double_eval:
  assumes "2 powr of_int e \<le> \<bar>x\<bar>" and "\<bar>x\<bar> < 2 powr of_int (e + 1)"
    and "- 1022 \<le> e"
    and "round_half_even (x / 2 powr of_int (e - 52)) = k"
  shows "round_double x = of_int k * 2 powr of_int (e - 52)"
proof -
  have "x \<noteq> 0" using assms(1) by (smt (verit) powr_gt_zero)
  moreover have "max \<lfloor>log 2 \<bar>x\<bar>\<rfloor> (- 1022) = e"
    using binade_eq [OF assms(1,2)] assms(3) by simp
  ultimately show ?thesis
    using assms(4) by (simp add: round_double_def Let_def)
qed

lemma two_powr_diff: "2 powr of_int (int a - int b) = (2::real) ^ a / 2 ^ b"
  by (simp add: powr_diff powr_realpow)

lemma round_double_scaled:
  assumes "2 ^ 52 \<le> \<bar>x\<bar> * 2 ^ m" and "\<bar>x\<bar> * 2 ^ m < 2 ^ 53"
    and "m \<le> 1074"
    and "round_half_even (x * 2 ^ m) = k"
  shows "round_double x = of_int k / 2 ^ m"
proof -
  have range: "- 1022 \<le> int 52 - int m"
    using assms(3) by simp
  have lo: "2 powr of_int (int 52 - int m) = (2::real) ^ 52 / 2 ^ m"
    by (rule two_powr_diff)
  have "int 52 - int m + 1 = int 53 - int m" by simp
  then have hi: "2 powr of_int (int 52 - int m + 1) = (2::real) ^ 53 / 2 ^ m"
    by (simp only: two_powr_diff)
  have "int 52 - int m - 52 = int 0 - int m" by simp
  then have u: "2 powr of_int (int 52 - int m - 52) = (2::real) ^ 0 / 2 ^ m"
    by (simp only: two_powr_diff)
  have a: "2 powr of_int (int 52 - int m) \<le> \<bar>x\<bar>"
    unfolding lo using assms(1) by (simp add: field_simps)
  have b: "\<bar>x\<bar> < 2 powr of_int (int 52 - int m + 1)"
    unfolding hi using assms(2) by (simp add: field_simps)
  have c: "round_half_even (x / 2 powr of_int (int 52 - int m - 52)) = k"
    unfolding u using assms(4) by simp
  show ?thesis
    using round_double_eval [OF a b range c] unfolding u by simp
qed


text \<open>
  Rounding is to nearest: the error is at most half a unit in the last place. Every
  \<open>k * 2 ^ e\<close> with \<open>\<bar>k\<bar> < 2 ^ 53\<close> above the subnormal limit is a double.
\<close>

lemma round_half_even_error: "\<bar>of_int (round_half_even y) - y\<bar> \<le> 1 / 2"
proof -
  have "of_int \<lfloor>y\<rfloor> \<le> y" "y < of_int \<lfloor>y\<rfloor> + 1" by linarith+
  then show ?thesis
    by (auto simp: round_half_even_def Let_def)
qed

lemma round_double_error:
  "\<bar>round_double x - x\<bar> \<le> 2 powr of_int (max \<lfloor>log 2 \<bar>x\<bar>\<rfloor> (- 1022) - 52) / 2"
proof (cases "x = 0")
  case True
  then show ?thesis by (simp add: round_double_def)
next
  case False
  define u :: real where "u = 2 powr of_int (max \<lfloor>log 2 \<bar>x\<bar>\<rfloor> (- 1022) - 52)"
  have u: "0 < u" by (simp add: u_def)
  have "\<bar>of_int (round_half_even (x / u)) - x / u\<bar> \<le> 1 / 2"
    by (rule round_half_even_error)
  then have "\<bar>of_int (round_half_even (x / u)) - x / u\<bar> * u \<le> 1 / 2 * u"
    using u by (simp add: mult_right_mono)
  moreover have "\<bar>of_int (round_half_even (x / u)) - x / u\<bar> * u
                  = \<bar>of_int (round_half_even (x / u)) * u - x\<bar>"
  proof -
    have "\<bar>of_int (round_half_even (x / u)) - x / u\<bar> * u
            = \<bar>(of_int (round_half_even (x / u)) - x / u) * u\<bar>"
      using u by (simp add: abs_mult)
    also have "(of_int (round_half_even (x / u)) - x / u) * u
            = of_int (round_half_even (x / u)) * u - x"
      using u by (simp add: left_diff_distrib)
    finally show ?thesis .
  qed
  ultimately have "\<bar>of_int (round_half_even (x / u)) * u - x\<bar> \<le> u / 2"
    by simp
  moreover have "round_double x = of_int (round_half_even (x / u)) * u"
    using False by (simp add: round_double_def Let_def u_def)
  ultimately show ?thesis
    unfolding u_def by simp
qed

lemma double_dyadic:
  assumes k: "\<bar>k\<bar> < 2 ^ 53" and e: "- 1074 \<le> e"
  shows "is_double (of_int k * 2 powr of_int e)"
proof (cases "k = 0")
  case True
  then show ?thesis by (simp add: is_double_def round_double_def)
next
  case False
  define x :: real where "x = of_int k * 2 powr of_int e"
  define E where "E = max \<lfloor>log 2 \<bar>x\<bar>\<rfloor> (- 1022)"
  have x0: "x \<noteq> 0" using False by (simp add: x_def)
  have ax: "\<bar>x\<bar> = \<bar>of_int k\<bar> * 2 powr of_int e"
    by (simp add: x_def abs_mult)
  have "\<bar>real_of_int k\<bar> < 2 ^ 53"
    using k by (metis of_int_abs of_int_less_numeral_power_cancel_iff)
  then have "\<bar>x\<bar> < 2 ^ 53 * 2 powr of_int e"
    unfolding ax by (simp add: mult_strict_right_mono)
  also have "\<dots> = 2 powr of_int (53 + e)"
    by (simp add: powr_add powr_numeral [symmetric] del: powr_numeral)
  finally have "log 2 \<bar>x\<bar> < of_int (53 + e)"
    using x0 by (simp add: log_less_iff)
  then have "\<lfloor>log 2 \<bar>x\<bar>\<rfloor> \<le> 52 + e" by linarith
  then have le: "E - 52 \<le> e"
    using e by (simp add: E_def)
  define d where "d = nat (e - (E - 52))"
  have d: "of_int e = of_int (E - 52) + real d"
    using le by (simp add: d_def)
  have "(2::real) powr of_int e = 2 powr of_int (E - 52) * 2 ^ d"
    unfolding d by (simp add: powr_add powr_realpow)
  then have q: "x / 2 powr of_int (E - 52) = of_int (k * 2 ^ d)"
    by (simp add: x_def)
  have pos: "(2::real) powr of_int (E - 52) \<noteq> 0"
    by simp
  have "x = of_int (k * 2 ^ d) * 2 powr of_int (E - 52)"
    using q pos by (simp add: divide_eq_eq)
  then have "of_int (round_half_even (x / 2 powr of_int (E - 52))) * 2 powr of_int (E - 52) = x"
    unfolding q round_half_even_of_int by simp
  then show ?thesis
    using x0 by (simp add: is_double_def round_double_def Let_def x_def [symmetric] E_def [symmetric])
qed

subsection \<open>EMA\<close>

lemma fold_fixed_point: "f x s = s \<Longrightarrow> fold f (replicate m x) s = s"
  by (induction m) simp_all

lemma calculate_ema_undefined_iff:
  "1 \<le> period \<Longrightarrow>
     calculate_ema py_sum prices period = Inr None \<longleftrightarrow> length prices < period + 20"
  by (simp add: calculate_ema_def Let_def)

lemma ema_step_fixed: "is_double c \<Longrightarrow> fadd (fmul (fsub c c) multiplier) c = c"
  by (simp add: fadd_def fmul_def fsub_def is_double_def round_double_zero)

lemma calculate_ema_replicate:
  assumes "1 \<le> period" and "period + 20 \<le> n" and "is_double c"
    and seed: "fdiv (py_sum (replicate period c)) (real period) = c"
  shows "calculate_ema py_sum (replicate n c) period = Inr (Some c)"
proof -
  have "take period (replicate n c) = replicate period c"
    using assms(2) by (simp add: min_def)
  moreover have "fold (\<lambda>price ema. fadd (fmul (fsub price ema) (fdiv 2 (real period + 1))) ema)
          (replicate (n - period) c) c = c"
    by (rule fold_fixed_point) (rule ema_step_fixed [OF assms(3)])
  ultimately show ?thesis
    using assms(1,2) seed by (simp add: calculate_ema_def Let_def)
qed

lemma seed_period_one:
  "is_double c \<Longrightarrow> fdiv (sum_left_to_right (replicate 1 c)) (real 1) = c"
  by (simp add: sum_left_to_right_def fadd_def fdiv_def is_double_def)

text \<open>
  C7 (as amended). For every period of at least 1, \<^verbatim>\<open>calculate_ema\<close> returns the
  undefined sentinel exactly when \<open>len(prices) < period + 20\<close>. On a constant series of
  doubles of length at least \<open>period + 20\<close> the constant is a fixed point of every
  recursive step, so the result is exactly the constant whenever the seed mean
  \<open>sum(prices[:period]) / period\<close>, as computed in doubles, equals the constant; it does
  for period 1. Where rounding moves the seed mean off the constant, the result need not
  be the constant.
\<close>

theorem calculate_ema_constant:
  assumes "1 \<le> period"
  shows "(calculate_ema py_sum prices period = Inr None \<longleftrightarrow> length prices < period + 20)
       \<and> (period + 20 \<le> n \<and> is_double c
            \<and> fdiv (py_sum (replicate period c)) (real period) = c
          \<longrightarrow> calculate_ema py_sum (replicate n c) period = Inr (Some c))
       \<and> (21 \<le> n \<and> is_double c
          \<longrightarrow> calculate_ema sum_left_to_right (replicate n c) 1 = Inr (Some c))"
proof -
  have "21 \<le> n \<and> is_double c
          \<longrightarrow> calculate_ema sum_left_to_right (replicate n c) 1 = Inr (Some c)"
    using calculate_ema_replicate [of 1 n c sum_left_to_right] seed_period_one [of c]
    by simp
  then show ?thesis
    using assms calculate_ema_undefined_iff calculate_ema_replicate by blast
qed

lemma replicate_3: "replicate 3 x = [x, x, x]"
  by (simp add: numeral_eq_Suc)

lemma replicate_7: "replicate 7 x = [x, x, x, x, x, x, x]"
  by (simp add: numeral_eq_Suc)

lemma five_sum_1: "fadd 0 5 = 5"
proof -
  have "round_double (0 + 5) = of_int 5629499534213120 / 2 ^ 50"
    by (rule round_double_scaled) (simp_all add: round_half_even_near)
  then show ?thesis by (simp add: fadd_def)
qed

lemma five_sum_2: "fadd 5 5 = 10"
proof -
  have "round_double (5 + 5) = of_int 5629499534213120 / 2 ^ 49"
    by (rule round_double_scaled) (simp_all add: round_half_even_near)
  then show ?thesis by (simp add: fadd_def)
qed

lemma five_sum_3: "fadd 10 5 = 15"
proof -
  have "round_double (10 + 5) = of_int 8444249301319680 / 2 ^ 49"
    by (rule round_double_scaled) (simp_all add: round_half_even_near)
  then show ?thesis by (simp add: fadd_def)
qed

lemma five_seed: "fdiv 15 3 = 5"
proof -
  have "round_double (15 / 3) = of_int 5629499534213120 / 2 ^ 50"
    by (rule round_double_scaled) (simp_all add: round_half_even_near)
  then show ?thesis by (simp add: fdiv_def)
qed

lemma five_is_double: "is_double 5"
  using five_sum_1 by (simp add: is_double_def fadd_def)

theorem calculate_ema_constant_witness:
  "calculate_ema sum_left_to_right (replicate 23 5) 3 = Inr (Some 5)
   \<and> calculate_ema sum_left_to_right [1, 2, 3, 4] 3 = Inr None"
proof -
  have "fdiv (sum_left_to_right (replicate 3 5)) (real 3) = 5"
    unfolding replicate_3 sum_left_to_right_def
    by (simp add: five_sum_1 five_sum_2 five_sum_3 five_seed)
  then show ?thesis
    using calculate_ema_constant [of 3 sum_left_to_right "[1, 2, 3, 4]" 23 5] five_is_double
    by simp
qed

text \<open>
  The double written \<open>0.69\<close> is \<open>1553741871442821 / 2 ^ 51\<close>. Seven of them sum to a double
  whose seventh part rounds to the next double above \<open>0.69\<close>, printed
  \<open>0.6900000000000001\<close>; with the multiplier \<open>0.25\<close> every step of the loop returns that
  seed, and so does \<^verbatim>\<open>calculate_ema\<close> on 27 prices of \<open>0.69\<close> with period 7.
\<close>

lemma ema_sum_1: "fadd 0 (1553741871442821 / 2 ^ 51) = (1553741871442821 / 2 ^ 51)"
proof -
  have "round_double (0 + (1553741871442821 / 2 ^ 51)) = of_int 6214967485771284 / 2 ^ 53"
    by (rule round_double_scaled) (simp_all add: round_half_even_near)
  then show ?thesis by (simp add: fadd_def)
qed

lemma ema_sum_2: "fadd (1553741871442821 / 2 ^ 51) (1553741871442821 / 2 ^ 51) = (1553741871442821 / 2 ^ 50)"
proof -
  have "round_double ((1553741871442821 / 2 ^ 51) + (1553741871442821 / 2 ^ 51)) = of_int 6214967485771284 / 2 ^ 52"
    by (rule round_double_scaled) (simp_all add: round_half_even_near)
  then show ?thesis by (simp add: fadd_def)
qed

lemma ema_sum_3: "fadd (1553741871442821 / 2 ^ 50) (1553741871442821 / 2 ^ 51) = (4661225614328463 / 2 ^ 51)"
proof -
  have "round_double ((1553741871442821 / 2 ^ 50) + (1553741871442821 / 2 ^ 51)) = of_int 4661225614328463 / 2 ^ 51"
    by (rule round_double_scaled) (simp_all add: round_half_even_near)
  then show ?thesis by (simp add: fadd_def)
qed

lemma ema_sum_4: "fadd (4661225614328463 / 2 ^ 51) (1553741871442821 / 2 ^ 51) = (1553741871442821 / 2 ^ 49)"
proof -
  have "round_double ((4661225614328463 / 2 ^ 51) + (1553741871442821 / 2 ^ 51)) = of_int 6214967485771284 / 2 ^ 51"
    by (rule round_double_scaled) (simp_all add: round_half_even_near)
  then show ?thesis by (simp add: fadd_def)
qed

lemma ema_sum_5: "fadd (1553741871442821 / 2 ^ 49) (1553741871442821 / 2 ^ 51) = (7768709357214105 / 2 ^ 51)"
proof -
  have "round_double ((1553741871442821 / 2 ^ 49) + (1553741871442821 / 2 ^ 51)) = of_int 7768709357214105 / 2 ^ 51"
    by (rule round_double_scaled) (simp_all add: round_half_even_near)
  then show ?thesis by (simp add: fadd_def)
qed

lemma ema_sum_6: "fadd (7768709357214105 / 2 ^ 51) (1553741871442821 / 2 ^ 51) = (4661225614328463 / 2 ^ 50)"
proof -
  have "round_double ((7768709357214105 / 2 ^ 51) + (1553741871442821 / 2 ^ 51)) = of_int 4661225614328463 / 2 ^ 50"
    by (rule round_double_scaled) (simp_all add: round_half_even_near)
  then show ?thesis by (simp add: fadd_def)
qed

lemma ema_sum_7: "fadd (4661225614328463 / 2 ^ 50) (1553741871442821 / 2 ^ 51) = (2719048275024937 / 2 ^ 49)"
proof -
  have "round_double ((4661225614328463 / 2 ^ 50) + (1553741871442821 / 2 ^ 51)) = of_int 5438096550049874 / 2 ^ 50"
    by (rule round_double_scaled) (simp_all add: round_half_even_tie [where k = 5438096550049873])
  then show ?thesis by (simp add: fadd_def)
qed

lemma ema_seed: "fdiv (2719048275024937 / 2 ^ 49) 7 = (6214967485771285 / 2 ^ 53)"
proof -
  have "round_double ((2719048275024937 / 2 ^ 49) / 7) = of_int 6214967485771285 / 2 ^ 53"
    by (rule round_double_scaled) (simp_all add: round_half_even_near)
  then show ?thesis by (simp add: fdiv_def)
qed

lemma ema_multiplier: "fdiv 2 8 = (1 / 2 ^ 2)"
proof -
  have "round_double (2 / 8) = of_int 4503599627370496 / 2 ^ 54"
    by (rule round_double_scaled) (simp_all add: round_half_even_near)
  then show ?thesis by (simp add: fdiv_def)
qed

lemma ema_step_sub: "fsub (1553741871442821 / 2 ^ 51) (6214967485771285 / 2 ^ 53) = (- 1 / 2 ^ 53)"
proof -
  have "round_double ((1553741871442821 / 2 ^ 51) - (6214967485771285 / 2 ^ 53)) = of_int (- 4503599627370496) / 2 ^ 105"
    by (rule round_double_scaled) (simp_all add: round_half_even_near)
  then show ?thesis by (simp add: fsub_def)
qed

lemma ema_step_mul: "fmul (- 1 / 2 ^ 53) (1 / 2 ^ 2) = (- 1 / 2 ^ 55)"
proof -
  have "round_double ((- 1 / 2 ^ 53) * (1 / 2 ^ 2)) = of_int (- 4503599627370496) / 2 ^ 107"
    by (rule round_double_scaled) (simp_all add: round_half_even_near)
  then show ?thesis by (simp add: fmul_def)
qed

lemma ema_step_add: "fadd (- 1 / 2 ^ 55) (6214967485771285 / 2 ^ 53) = (6214967485771285 / 2 ^ 53)"
proof -
  have "round_double ((- 1 / 2 ^ 55) + (6214967485771285 / 2 ^ 53)) = of_int 6214967485771285 / 2 ^ 53"
    by (rule round_double_scaled) (simp_all add: round_half_even_near)
  then show ?thesis by (simp add: fadd_def)
qed

lemma ema_stuck_seed:
  "fdiv (sum_left_to_right (replicate 7 (1553741871442821 / 2 ^ 51))) 7
     = 6214967485771285 / 2 ^ 53"
  unfolding replicate_7 sum_left_to_right_def
  by (simp only: fold_simps ema_sum_1 ema_sum_2 ema_sum_3 ema_sum_4 ema_sum_5 ema_sum_6
      ema_sum_7 ema_seed)

lemma ema_stuck_step:
  "fadd (fmul (fsub (1553741871442821 / 2 ^ 51) (6214967485771285 / 2 ^ 53)) (1 / 2 ^ 2))
     (6214967485771285 / 2 ^ 53) = 6214967485771285 / 2 ^ 53"
  by (simp only: ema_step_sub ema_step_mul ema_step_add)

theorem calculate_ema_constant_rounded:
  "calculate_ema sum_left_to_right (replicate 27 (1553741871442821 / 2 ^ 51)) 7
     = Inr (Some (6214967485771285 / 2 ^ 53))
   \<and> (6214967485771285 / 2 ^ 53 :: real) \<noteq> 1553741871442821 / 2 ^ 51
   \<and> is_double (1553741871442821 / 2 ^ 51)"
proof -
  have t: "take 7 (replicate 27 (1553741871442821 / 2 ^ 51 :: real))
             = replicate 7 (1553741871442821 / 2 ^ 51)"
    by simp
  have d: "drop 7 (replicate 27 (1553741871442821 / 2 ^ 51 :: real))
             = replicate 20 (1553741871442821 / 2 ^ 51)"
    by simp
  have seed: "fdiv (sum_left_to_right (replicate 7 (1553741871442821 / 2 ^ 51))) (real 7)
             = 6214967485771285 / 2 ^ 53"
    using ema_stuck_seed by simp
  have m: "fdiv 2 (real 7 + 1) = 1 / 2 ^ 2"
    using ema_multiplier by simp
  have loop: "fold (\<lambda>price ema. fadd (fmul (fsub price ema) (1 / 2 ^ 2)) ema)
          (replicate 20 (1553741871442821 / 2 ^ 51)) (6214967485771285 / 2 ^ 53)
        = 6214967485771285 / 2 ^ 53"
    by (rule fold_fixed_point) (rule ema_stuck_step)
  have "calculate_ema sum_left_to_right (replicate 27 (1553741871442821 / 2 ^ 51)) 7
     = Inr (Some (6214967485771285 / 2 ^ 53))"
    unfolding calculate_ema_def Let_def t d m seed loop
    by simp
  moreover have "is_double (1553741871442821 / 2 ^ 51)"
    using ema_sum_1 by (simp add: is_double_def fadd_def)
  ultimately show ?thesis by simp
qed

subsection \<open>Trend classification of a constant series\<close>




























subsection \<open>Stochastic alerts\<close>

text \<open>
  C2. Under stochastic method 2 with the long EMA undefined, the alert composition of
  both loops produces exactly what method 1 produces for the same %K, %D, thresholds
  and price (method 1 never reads the EMA, so its EMA argument is arbitrary).
\<close>

theorem stoch_method2_fallback:
  "main_stoch_alerts 2 None p k d ob os price = main_stoch_alerts 1 e p k d ob os price
   \<and> screener_stoch_alerts 2 None p k d ob os price
       = screener_stoch_alerts 1 e p k d ob os price"
  by (simp add: main_stoch_alerts_def screener_stoch_alerts_def)

text \<open>
  C3. Under stochastic method 2 with the long EMA computable, in both loops: the bullish
  composite alert is emitted if and only if the oversold condition holds and the price
  is above the long EMA, and the bearish composite alert if and only if the overbought
  condition holds and the price is below the long EMA. Neither determination mentions
  the other. (\<^verbatim>\<open>screener_loop\<close> joins the two tests with \<^verbatim>\<open>elif\<close>, which changes nothing:
  the price cannot be both above and below the EMA.)
\<close>

theorem stoch_method2_independent:
  "((d, Stoch_Oversold_Above_EMA p) \<in> set (main_stoch_alerts 2 (Some ema) p k d ob os price)
      \<longleftrightarrow> (k < os \<or> d < os) \<and> price > ema)
   \<and> ((d, Stoch_Overbought_Below_EMA p) \<in> set (main_stoch_alerts 2 (Some ema) p k d ob os price)
      \<longleftrightarrow> (k > ob \<or> d > ob) \<and> price < ema)
   \<and> (Stoch_Oversold_Above_EMA p \<in> set (screener_stoch_alerts 2 (Some ema) p k d ob os price)
      \<longleftrightarrow> (k < os \<or> d < os) \<and> price > ema)
   \<and> (Stoch_Overbought_Below_EMA p \<in> set (screener_stoch_alerts 2 (Some ema) p k d ob os price)
      \<longleftrightarrow> (k > ob \<or> d > ob) \<and> price < ema)"
  by (auto simp: main_stoch_alerts_def screener_stoch_alerts_def Let_def)

subsection \<open>Loading the cache\<close>

lemma load_market_data_no_file:
  "load_market_data Absent t = Map.empty \<and> load_market_data Unreadable t = Map.empty"
  by (simp add: load_market_data_def)

text \<open>
  C5. Loading a stored cache gives the empty cache unless its metadata carries the
  current timeframe, and gives the stored dictionary itself when it does. For a cache
  the program tagged with \<open>cached\<close>: a different current timeframe leaves no entry for any
  symbol, and an equal one returns every symbol's entry unchanged.
\<close>

theorem load_market_data_timeframe:
  "load_market_data (Stored data) current_timeframe =
     (if data ''_metadata'' = Some (Metadata (Some current_timeframe)) then data else Map.empty)
   \<and> load_market_data (Stored (tag_metadata cached market_data)) current_timeframe =
     (if cached = current_timeframe then tag_metadata cached market_data else Map.empty)
   \<and> (cached \<noteq> current_timeframe \<longrightarrow>
        (\<forall>symbol. load_market_data (Stored (tag_metadata cached market_data)) current_timeframe symbol = None))
   \<and> (cached = current_timeframe \<longrightarrow>
        (\<forall>symbol. symbol \<noteq> ''_metadata'' \<longrightarrow>
           load_market_data (Stored (tag_metadata cached market_data)) current_timeframe symbol
             = market_data symbol))"
  by (auto simp: load_market_data_def tag_metadata_def Let_def split: option.splits cache_value.splits)

theorem load_market_data_timeframe_witness:
  "load_market_data
     (Stored (tag_metadata 15
        [''BTC_USDT'' \<mapsto> Asset \<lparr>last_updated = Some 100, entry_highs = Some [3, 4],
            entry_lows = Some [1, 2], entry_prices = Some [2, 3]\<rparr>])) 60 ''BTC_USDT'' = None
   \<and> load_market_data
     (Stored (tag_metadata 15
        [''BTC_USDT'' \<mapsto> Asset \<lparr>last_updated = Some 100, entry_highs = Some [3, 4],
            entry_lows = Some [1, 2], entry_prices = Some [2, 3]\<rparr>])) 15 ''BTC_USDT''
     = Some (Asset \<lparr>last_updated = Some 100, entry_highs = Some [3, 4],
            entry_lows = Some [1, 2], entry_prices = Some [2, 3]\<rparr>)"
  using load_market_data_timeframe
      [of "tag_metadata 15 [''BTC_USDT'' \<mapsto> Asset \<lparr>last_updated = Some 100, entry_highs = Some [3, 4],
            entry_lows = Some [1, 2], entry_prices = Some [2, 3]\<rparr>]" 60 15
          "[''BTC_USDT'' \<mapsto> Asset \<lparr>last_updated = Some 100, entry_highs = Some [3, 4],
            entry_lows = Some [1, 2], entry_prices = Some [2, 3]\<rparr>]"]
    load_market_data_timeframe
      [of "tag_metadata 15 [''BTC_USDT'' \<mapsto> Asset \<lparr>last_updated = Some 100, entry_highs = Some [3, 4],
            entry_lows = Some [1, 2], entry_prices = Some [2, 3]\<rparr>]" 15 15
          "[''BTC_USDT'' \<mapsto> Asset \<lparr>last_updated = Some 100, entry_highs = Some [3, 4],
            entry_lows = Some [1, 2], entry_prices = Some [2, 3]\<rparr>]"]
  by (simp add: tag_metadata_def)

subsection \<open>A failed retrieval\<close>

lemma screener_assets_failed:
  "retrieval_failed (fetch symbol) \<Longrightarrow>
     fst (screener_assets fetch assets (results, refreshed_count)) symbol = results symbol"
proof (induction assets arbitrary: results refreshed_count)
  case Nil
  then show ?case by simp
next
  case (Cons a assets)
  show ?case
  proof (cases "screener_symbol (fetch a) refreshed_count")
    case (Pair rc res)
    show ?thesis
    proof (cases res)
      case None
      with Pair Cons show ?thesis by simp
    next
      case (Some r)
      have "a \<noteq> symbol"
      proof
        assume "a = symbol"
        with Cons.prems have "retrieval_failed (fetch a)" by simp
        then have "snd (screener_symbol (fetch a) refreshed_count) = None"
          by (cases "fetch a" rule: retrieval_failed.cases) (auto simp: screener_symbol_def)
        with Pair Some show False by simp
      qed
      with Pair Some Cons show ?thesis by simp
    qed
  qed
qed

text \<open>
  C6 (as amended). In the single-process loop, for every symbol whose fetch or parse
  fails, the cache and the refresh count are left as they were, and the indicator
  computations run on the symbol's prior entry when it exists and has prices, and are
  skipped otherwise. The per-client loop keeps no series cache: there, a symbol whose
  fetch or parse fails is always skipped, and the results that replace the session's
  data at the end of the cycle hold no entry for it.
\<close>

theorem failed_retrieval_main_and_screener:
  assumes "retrieval_failed raw_data"
  shows "fst (main_symbol now symbol raw_data (market_data, refreshed_count))
           = (market_data, refreshed_count)
       \<and> snd (main_symbol now symbol raw_data (market_data, refreshed_count)) =
           (case market_data symbol of
              Some (Asset e) \<Rightarrow>
                (case entry_prices e of
                   Some prices \<Rightarrow>
                     Some \<lparr>a_prices = prices,
                       a_highs = (case entry_highs e of None \<Rightarrow> [] | Some h \<Rightarrow> h),
                       a_lows = (case entry_lows e of None \<Rightarrow> [] | Some l \<Rightarrow> l),
                       a_current_price = (if prices \<noteq> [] then Some (last prices) else None)\<rparr>
                 | None \<Rightarrow> None)
            | Some (Metadata m) \<Rightarrow> None
            | None \<Rightarrow> None)
       \<and> screener_symbol raw_data refreshed_count = (refreshed_count, None)
       \<and> (fetch symbol = raw_data \<longrightarrow> s_data (screener_cycle fetch assets s) symbol = None)"
proof -
  have "fetch symbol = raw_data \<longrightarrow> s_data (screener_cycle fetch assets s) symbol = None"
    using assms screener_assets_failed [of fetch symbol assets Map.empty 0]
    by (auto simp: screener_cycle_def)
  moreover have "screener_symbol raw_data refreshed_count = (refreshed_count, None)"
    using assms by (cases raw_data rule: retrieval_failed.cases) (auto simp: screener_symbol_def)
  moreover have "fst (main_symbol now symbol raw_data (market_data, refreshed_count))
           = (market_data, refreshed_count)"
    using assms by (cases raw_data rule: retrieval_failed.cases) (auto simp: main_symbol_def)
  moreover have "snd (main_symbol now symbol raw_data (market_data, refreshed_count)) =
           (case market_data symbol of
              Some (Asset e) \<Rightarrow>
                (case entry_prices e of
                   Some prices \<Rightarrow>
                     Some \<lparr>a_prices = prices,
                       a_highs = (case entry_highs e of None \<Rightarrow> [] | Some h \<Rightarrow> h),
                       a_lows = (case entry_lows e of None \<Rightarrow> [] | Some l \<Rightarrow> l),
                       a_current_price = (if prices \<noteq> [] then Some (last prices) else None)\<rparr>
                 | None \<Rightarrow> None)
            | Some (Metadata m) \<Rightarrow> None
            | None \<Rightarrow> None)"
    using assms by (cases raw_data rule: retrieval_failed.cases)
      (auto simp: main_symbol_def split: option.splits cache_value.splits)
  ultimately show ?thesis by blast
qed

theorem failed_retrieval_main_and_screener_witness:
  "retrieval_failed Fetch_failed
   \<and> main_symbol 200 ''BTC_USDT'' Fetch_failed
       ([''BTC_USDT'' \<mapsto> Asset \<lparr>last_updated = Some 100, entry_highs = Some [3, 4],
            entry_lows = Some [1, 2], entry_prices = Some [2, 3]\<rparr>], 0)
     = (([''BTC_USDT'' \<mapsto> Asset \<lparr>last_updated = Some 100, entry_highs = Some [3, 4],
            entry_lows = Some [1, 2], entry_prices = Some [2, 3]\<rparr>], 0),
        Some \<lparr>a_prices = [2, 3], a_highs = [3, 4], a_lows = [1, 2], a_current_price = Some 3\<rparr>)
   \<and> snd (main_symbol 200 ''ETH_USDT'' Fetch_failed
       ([''BTC_USDT'' \<mapsto> Asset \<lparr>last_updated = Some 100, entry_highs = Some [3, 4],
            entry_lows = Some [1, 2], entry_prices = Some [2, 3]\<rparr>], 0)) = None
   \<and> screener_symbol Fetch_failed 0 = (0, None)"
  using failed_retrieval_main_and_screener
      [of Fetch_failed 200 "''BTC_USDT''"
          "[''BTC_USDT'' \<mapsto> Asset \<lparr>last_updated = Some 100, entry_highs = Some [3, 4],
            entry_lows = Some [1, 2], entry_prices = Some [2, 3]\<rparr>]" 0]
    failed_retrieval_main_and_screener
      [of Fetch_failed 200 "''ETH_USDT''"
          "[''BTC_USDT'' \<mapsto> Asset \<lparr>last_updated = Some 100, entry_highs = Some [3, 4],
            entry_lows = Some [1, 2], entry_prices = Some [2, 3]\<rparr>]" 0]
  by (simp add: prod_eq_iff)

text \<open>
  Two cycles of the per-client loop: the first retrieves the symbol and stores its
  result, the second fails to fetch it. The symbol is skipped although data for it was
  retrieved a cycle earlier, and its earlier result is gone from the session.
\<close>

theorem screener_cycle_keeps_no_stale_data:
  "s_data (screener_cycle (\<lambda>symbol. Fetched (Some ([3, 4], [1, 2], [2, 3]))) [''BTC_USDT'']
      \<lparr>s_running = True, s_queue = \<lparr>maxsize = 500, items = []\<rparr>, s_data = Map.empty\<rparr>)
     ''BTC_USDT''
     = Some \<lparr>r_symbol = ''BTC_USDT'', r_price = Some 3\<rparr>
   \<and> s_data (screener_cycle (\<lambda>symbol. Fetch_failed) [''BTC_USDT'']
       (screener_cycle (\<lambda>symbol. Fetched (Some ([3, 4], [1, 2], [2, 3]))) [''BTC_USDT'']
          \<lparr>s_running = True, s_queue = \<lparr>maxsize = 500, items = []\<rparr>, s_data = Map.empty\<rparr>))
     ''BTC_USDT'' = None
   \<and> screener_symbol Fetch_failed 0 = (0, None)"
  by (simp add: screener_cycle_def screener_symbol_def)

subsection \<open>The event queue\<close>

lemma get_session_capacity:
  "sessions session_id = None \<Longrightarrow>
     s_queue (snd (get_session sessions session_id)) = \<lparr>maxsize = 500, items = []\<rparr>"
  by (simp add: get_session_def Let_def)

lemma push_event_room:
  "sessions session_id = Some s \<Longrightarrow> length (items (s_queue s)) < maxsize (s_queue s) \<Longrightarrow>
     push_event sessions session_id event_type data =
       sessions(session_id \<mapsto> s\<lparr>s_queue := (s_queue s)\<lparr>items := items (s_queue s) @ [(event_type, data)]\<rparr>\<rparr>)"
  by (simp add: push_event_def put_nowait_def)

text \<open>
  C9. For every session whose bounded event queue is full, \<^verbatim>\<open>put_nowait\<close> refuses the
  new event and \<^verbatim>\<open>push_event\<close> returns the registry as it was: the event is dropped, the
  queue keeps its contents, and nothing is raised or waited for.
\<close>

theorem push_event_full:
  assumes "sessions session_id = Some s"
    and "0 < maxsize (s_queue s)"
    and "maxsize (s_queue s) \<le> length (items (s_queue s))"
  shows "put_nowait (s_queue s) (event_type, data) = Inl Full
       \<and> push_event sessions session_id event_type data = sessions"
  using assms by (simp add: push_event_def put_nowait_def)

theorem push_event_full_witness:
  "push_event
     [''c1'' \<mapsto> \<lparr>s_running = True,
        s_queue = \<lparr>maxsize = 500, items = replicate 500 (''log'', ''m'')\<rparr>,
        s_data = Map.empty\<rparr>]
     ''c1'' ''countdown'' ''5''
   = [''c1'' \<mapsto> \<lparr>s_running = True,
        s_queue = \<lparr>maxsize = 500, items = replicate 500 (''log'', ''m'')\<rparr>,
        s_data = Map.empty\<rparr>]"
  using push_event_full
    [of "[''c1'' \<mapsto> \<lparr>s_running = True,
            s_queue = \<lparr>maxsize = 500, items = replicate 500 (''log'', ''m'')\<rparr>,
            s_data = Map.empty\<rparr>]"
        "''c1''"
        "\<lparr>s_running = True,
            s_queue = \<lparr>maxsize = 500, items = replicate 500 (''log'', ''m'')\<rparr>,
            s_data = Map.empty\<rparr>"
        "''countdown''" "''5''"]
  by simp

subsection \<open>Interval labels\<close>

lemma get_interval_str_recognized:
  "map get_interval_str [1, 5, 15, 30, 60, 240, 480, 1440, 10080, 43200] =
     [''Min1'', ''Min5'', ''Min15'', ''Min30'', ''Min60'', ''Hour4'', ''Hour8'', ''Day1'',
      ''Week1'', ''Month1'']"
  by (simp add: get_interval_str_def)

text \<open>
  C10. \<^verbatim>\<open>get_interval_str\<close> returns \<open>Min15\<close> for every number of minutes outside the ten
  recognised ones. With such a timeframe the candles are requested with the label
  \<open>Min15\<close> over a window of 900 seconds per candle, while a refreshed cache is saved, and
  accepted again by the next load, under the unrecognised number itself.
\<close>

theorem get_interval_str_default:
  assumes "minutes \<notin> {1, 5, 15, 30, 60, 240, 480, 1440, 10080, 43200}"
  shows "get_interval_str minutes = ''Min15''
       \<and> fetch_kline_params end_time (get_interval_str minutes) count
           = (''Min15'', end_time - count * 900, end_time)
       \<and> save_refreshed (Suc n) minutes market_data file
           = Stored (market_data(''_metadata'' \<mapsto> Metadata (Some minutes)))
       \<and> load_market_data (save_refreshed (Suc n) minutes market_data file) minutes
           = market_data(''_metadata'' \<mapsto> Metadata (Some minutes))"
  using assms
  by (simp add: get_interval_str_def fetch_kline_params_def save_refreshed_def
      tag_metadata_def load_market_data_def)

theorem get_interval_str_default_witness:
  "(7::int) \<notin> {1, 5, 15, 30, 60, 240, 480, 1440, 10080, 43200}
   \<and> get_interval_str 7 = ''Min15''
   \<and> fetch_kline_params 1000000 (get_interval_str 7) 250 = (''Min15'', 775000, 1000000)
   \<and> load_market_data (save_refreshed (Suc 0) 7 Map.empty Absent) 7 ''_metadata''
       = Some (Metadata (Some 7))"
  using get_interval_str_default [of 7 1000000 250 0 Map.empty Absent]
  by (simp add: get_interval_str_def fetch_kline_params_def save_refreshed_def
      tag_metadata_def load_market_data_def)

subsection \<open>The next candle boundary\<close>

lemma floor_multiple_le: "0 < interval \<Longrightarrow> (now_ts div interval) * interval \<le> (now_ts::int)"
  by (metis mult.commute mult_div_mod_eq pos_mod_sign le_add_same_cancel1)

lemma ceiling_quotient:
  "0 < (b::int) \<Longrightarrow>
     \<lceil>real_of_int a / real_of_int b\<rceil> = (if b dvd a then a div b else a div b + 1)"
  by (simp add: ceiling_divide_eq_div zdiv_zminus1_eq_if dvd_eq_mod_eq_0)

lemma ceil_boundary_eq:
  "0 < interval \<Longrightarrow> ceil_boundary now_ts interval =
     (if interval dvd now_ts then now_ts else next_interval now_ts interval)"
  by (auto simp: ceil_boundary_def next_interval_def ceiling_quotient)

lemma next_interval_gt: "0 < interval \<Longrightarrow> now_ts < next_interval now_ts interval"
proof -
  assume pos: "0 < interval"
  have "now_ts = (now_ts div interval) * interval + now_ts mod interval" by simp
  moreover have "now_ts mod interval < interval" using pos by simp
  ultimately have "now_ts < (now_ts div interval) * interval + interval" by linarith
  then show ?thesis by (simp add: next_interval_def algebra_simps)
qed

lemma next_interval_le: "0 < interval \<Longrightarrow> next_interval now_ts interval \<le> now_ts + interval"
  using floor_multiple_le [of interval now_ts] by (simp add: next_interval_def algebra_simps)

lemma next_interval_least:
  assumes pos: "0 < interval" and gt: "now_ts < k * interval"
  shows "next_interval now_ts interval \<le> k * interval"
proof -
  have "now_ts div interval < k"
  proof (rule ccontr)
    assume "\<not> now_ts div interval < k"
    then have "k \<le> now_ts div interval" by simp
    then have "k * interval \<le> (now_ts div interval) * interval"
      using pos by (simp add: mult_right_mono)
    then show False using gt floor_multiple_le [OF pos, of now_ts] by linarith
  qed
  then have "now_ts div interval + 1 \<le> k" by simp
  then show ?thesis
    using pos by (simp add: next_interval_def mult_right_mono)
qed

text \<open>
  C8 (as amended). For every integer \<open>now\<close> and positive interval, the wake-up instant
  \<open>((now // interval) + 1) * interval\<close> is the smallest multiple of the interval that is
  strictly greater than \<open>now\<close>, at most one interval away. It equals
  \<open>ceil(now / interval) * interval\<close> exactly when \<open>now\<close> is not a multiple of the interval;
  at an exact multiple it is one whole interval later than the ceiling formula.
\<close>

theorem next_interval_strict_boundary:
  assumes "0 < interval"
  shows "interval dvd next_interval now_ts interval
       \<and> now_ts < next_interval now_ts interval
       \<and> next_interval now_ts interval \<le> now_ts + interval
       \<and> (\<forall>k. now_ts < k * interval \<longrightarrow> next_interval now_ts interval \<le> k * interval)
       \<and> next_interval now_ts interval =
           (if interval dvd now_ts then ceil_boundary now_ts interval + interval
            else ceil_boundary now_ts interval)"
proof -
  have "interval dvd next_interval now_ts interval"
    by (simp add: next_interval_def)
  moreover have "next_interval now_ts interval =
           (if interval dvd now_ts then ceil_boundary now_ts interval + interval
            else ceil_boundary now_ts interval)"
    using assms by (auto simp: ceil_boundary_eq) (auto simp: next_interval_def algebra_simps)
  ultimately show ?thesis
    using assms next_interval_gt next_interval_le next_interval_least by blast
qed

theorem next_interval_strict_boundary_witness:
  "(0::int) < 900 \<and> next_interval 1000 900 = 1800 \<and> ceil_boundary 1000 900 = 1800
   \<and> (900::int) dvd 1800 \<and> (1000::int) < 2 * 900 \<and> sleep_seconds 1000 15 = 800"
  using next_interval_strict_boundary [of 900 1000]
  by (simp add: next_interval_def ceil_boundary_def sleep_seconds_def)

text \<open>
  At \<open>now = 900\<close> with a 15-minute timeframe (900 seconds) the code waits until 1800,
  while the smallest multiple of 900 that is at least 900 is 900 itself.
\<close>

theorem next_interval_at_exact_multiple:
  "next_interval 900 900 = 1800 \<and> ceil_boundary 900 900 = 900
   \<and> next_interval 900 900 \<noteq> ceil_boundary 900 900
   \<and> (900::int) dvd 900 \<and> (900::int) \<le> 900 \<and> (900::int) < next_interval 900 900
   \<and> sleep_seconds 900 15 = 900"
  by (simp add: next_interval_def ceil_boundary_def sleep_seconds_def)

end
